theory Spec2Isabelle
  imports Main "HOL-Library.Word" "HOL-Library.Sublist"
begin

unbundle bit_operations_syntax

section \<open>Texts\<close>

text \<open>
  A Python \<open>str\<close> is modelled by its UTF-8 encoding, a \<open>string\<close> of 8-bit characters,
  so that \<open>texto.encode()\<close> is the identity and the literals of the source that are
  not ASCII are written byte by byte.

  \<open>str.lower\<close> and \<open>str.strip\<close> belong to the interpreter, and work by its Unicode
  character database, which is no part of the repository. On a text of ASCII characters
  they are computed here: \<open>lower\<close> maps the letters \<open>A\<close> to \<open>Z\<close> to \<open>a\<close> to \<open>z\<close>, one by
  one, and \<open>strip\<close> removes from both ends the ten ASCII characters for which
  \<open>str.isspace\<close> holds (9 to 13 and 28 to 32). On any other text (an accented capital,
  a final sigma, a no-break space) they are the two functions of a record \<open>unicode\<close>,
  a parameter of the model: it stands for the interpreter's own \<open>lower\<close> and \<open>strip\<close>,
  and nothing is assumed of it.
\<close>

definition es_ascii :: "string \<Rightarrow> bool" where
  "es_ascii s = list_all (\<lambda>c. (of_char c :: nat) < 128) s"

record unicode =
  lower_u :: "string \<Rightarrow> string"
  strip_u :: "string \<Rightarrow> string"

fun lower_char :: "char \<Rightarrow> char" where
  "lower_char c =
     (if 65 \<le> (of_char c :: nat) \<and> (of_char c :: nat) \<le> 90
      then char_of (of_char c + 32 :: nat) else c)"

declare lower_char.simps [simp del]

definition py_lower :: "unicode \<Rightarrow> string \<Rightarrow> string" where
  "py_lower U s = (if es_ascii s then map lower_char s else lower_u U s)"

fun isspace :: "char \<Rightarrow> bool" where
  "isspace c =
     ((9 \<le> (of_char c :: nat) \<and> (of_char c :: nat) \<le> 13) \<or>
      (28 \<le> (of_char c :: nat) \<and> (of_char c :: nat) \<le> 32))"

declare isspace.simps [simp del]

definition py_strip :: "unicode \<Rightarrow> string \<Rightarrow> string" where
  "py_strip U s =
     (if es_ascii s then rev (dropWhile isspace (rev (dropWhile isspace s)))
      else strip_u U s)"

definition startswith :: "string \<Rightarrow> string \<Rightarrow> bool" where
  "startswith s p = (take (length p) s = p)"

text \<open>Decimal digits of a natural number, as \<open>str(n)\<close> and an f-string print them.\<close>

fun str_nat :: "nat \<Rightarrow> string" where
  "str_nat n =
     (if n < 10 then [char_of (48 + n)]
      else str_nat (n div 10) @ [char_of (48 + n mod 10)])"

declare str_nat.simps [simp del]

section \<open>MD5\<close>

text \<open>
  \<open>hashlib.md5(b).hexdigest()\<close>, after RFC 1321: the message is padded with the byte
  \<open>0x80\<close>, zero bytes up to 56 modulo 64 and its length in bits as 64 bits, little
  endian; every block of 64 bytes, read as sixteen 32-bit words, goes through 64 steps
  on a state of four 32-bit words; the digest is the state written byte by byte in
  lower-case hexadecimal.
\<close>

type_synonym md5_estado = "32 word \<times> 32 word \<times> 32 word \<times> 32 word"

definition md5_s :: "nat list" where
  "md5_s = [7, 12, 17, 22, 7, 12, 17, 22, 7, 12, 17, 22, 7, 12, 17, 22,
     5, 9, 14, 20, 5, 9, 14, 20, 5, 9, 14, 20, 5, 9, 14, 20,
     4, 11, 16, 23, 4, 11, 16, 23, 4, 11, 16, 23, 4, 11, 16, 23,
     6, 10, 15, 21, 6, 10, 15, 21, 6, 10, 15, 21, 6, 10, 15, 21]"

definition md5_K :: "32 word list" where
  "md5_K = [0xd76aa478, 0xe8c7b756, 0x242070db, 0xc1bdceee,
     0xf57c0faf, 0x4787c62a, 0xa8304613, 0xfd469501,
     0x698098d8, 0x8b44f7af, 0xffff5bb1, 0x895cd7be,
     0x6b901122, 0xfd987193, 0xa679438e, 0x49b40821,
     0xf61e2562, 0xc040b340, 0x265e5a51, 0xe9b6c7aa,
     0xd62f105d, 0x02441453, 0xd8a1e681, 0xe7d3fbc8,
     0x21e1cde6, 0xc33707d6, 0xf4d50d87, 0x455a14ed,
     0xa9e3e905, 0xfcefa3f8, 0x676f02d9, 0x8d2a4c8a,
     0xfffa3942, 0x8771f681, 0x6d9d6122, 0xfde5380c,
     0xa4beea44, 0x4bdecfa9, 0xf6bb4b60, 0xbebfbc70,
     0x289b7ec6, 0xeaa127fa, 0xd4ef3085, 0x04881d05,
     0xd9d4d039, 0xe6db99e5, 0x1fa27cf8, 0xc4ac5665,
     0xf4292244, 0x432aff97, 0xab9423a7, 0xfc93a039,
     0x655b59c3, 0x8f0ccc92, 0xffeff47d, 0x85845dd1,
     0x6fa87e4f, 0xfe2ce6e0, 0xa3014314, 0x4e0811a1,
     0xf7537e82, 0xbd3af235, 0x2ad7d2bb, 0xeb86d391]"

fun md5_longitud :: "nat \<Rightarrow> nat \<Rightarrow> 8 word" where
  "md5_longitud n i = ucast (drop_bit (8 * i) (of_nat (8 * n) :: 64 word))"

definition md5_relleno :: "string \<Rightarrow> 8 word list" where
  "md5_relleno m =
     map of_char m @ [0x80] @ replicate ((119 - length m mod 64) mod 64) 0 @
     map (md5_longitud (length m)) [0..<8]"

fun md5_palabra :: "8 word list \<Rightarrow> nat \<Rightarrow> nat \<Rightarrow> 32 word" where
  "md5_palabra bs k j =
     (case take 4 (drop (64 * k + 4 * j) bs) of
        [b0, b1, b2, b3] \<Rightarrow>
          ucast b0 OR push_bit 8 (ucast b1) OR push_bit 16 (ucast b2) OR push_bit 24 (ucast b3)
      | _ \<Rightarrow> 0)"

fun md5_M :: "8 word list \<Rightarrow> nat \<Rightarrow> 32 word list" where
  "md5_M bs k = map (md5_palabra bs k) [0..<16]"

definition md5_bloques :: "8 word list \<Rightarrow> 32 word list list" where
  "md5_bloques bs = map (md5_M bs) [0..<length bs div 64]"

fun md5_F :: "nat \<Rightarrow> 32 word \<Rightarrow> 32 word \<Rightarrow> 32 word \<Rightarrow> 32 word" where
  "md5_F i b c d =
     (if i < 16 then (b AND c) OR (NOT b AND d)
      else if i < 32 then (d AND b) OR (NOT d AND c)
      else if i < 48 then b XOR c XOR d
      else c XOR (b OR NOT d))"

fun md5_g :: "nat \<Rightarrow> nat" where
  "md5_g i =
     (if i < 16 then i
      else if i < 32 then (5 * i + 1) mod 16
      else if i < 48 then (3 * i + 5) mod 16
      else (7 * i) mod 16)"

fun md5_paso :: "32 word list \<Rightarrow> nat \<Rightarrow> md5_estado \<Rightarrow> md5_estado" where
  "md5_paso M i (a, b, c, d) =
     (d, b + word_rotl (md5_s ! i) (md5_F i b c d + a + md5_K ! i + M ! md5_g i), b, c)"

fun md5_suma :: "md5_estado \<Rightarrow> md5_estado \<Rightarrow> md5_estado" where
  "md5_suma (a0, b0, c0, d0) (a, b, c, d) = (a0 + a, b0 + b, c0 + c, d0 + d)"

definition md5_bloque :: "md5_estado \<Rightarrow> 32 word list \<Rightarrow> md5_estado" where
  "md5_bloque h M = md5_suma h (fold (md5_paso M) [0..<64] h)"

definition md5 :: "string \<Rightarrow> md5_estado" where
  "md5 m = foldl md5_bloque (0x67452301, 0xefcdab89, 0x98badcfe, 0x10325476)
             (md5_bloques (md5_relleno m))"

definition hex_digito :: "nat \<Rightarrow> char" where
  "hex_digito n = ''0123456789abcdef'' ! n"

fun hex_octeto :: "32 word \<Rightarrow> nat \<Rightarrow> string" where
  "hex_octeto w i =
     [hex_digito (unat (drop_bit (8 * i + 4) w AND 15)),
      hex_digito (unat (drop_bit (8 * i) w AND 15))]"

definition hex_palabra :: "32 word \<Rightarrow> string" where
  "hex_palabra w = concat (map (hex_octeto w) [0..<4])"

fun md5_hex :: "md5_estado \<Rightarrow> string" where
  "md5_hex (a, b, c, d) = hex_palabra a @ hex_palabra b @ hex_palabra c @ hex_palabra d"

definition md5_hexdigest :: "string \<Rightarrow> string" where
  "md5_hexdigest m = md5_hex (md5 m)"

section \<open>The monitor\<close>

subsection \<open>Fingerprint\<close>

text \<open>
  \<^verbatim>\<open>texto = f"{titulo}{empresa}".lower().strip()\<close>
  \<^verbatim>\<open>return hashlib.md5(texto.encode()).hexdigest()\<close>
\<close>

definition calcular_hash :: "unicode \<Rightarrow> string \<Rightarrow> string \<Rightarrow> string" where
  "calcular_hash U titulo empresa =
     md5_hexdigest (py_strip U (py_lower U (titulo @ empresa)))"

subsection \<open>Data\<close>

text \<open>
  A listing is the dictionary that \<open>obtener_ofertas\<close> builds: six keys, every value a
  text. A tag of the parsed page is what the code reads of it: the text that
  \<open>get_text(strip=True)\<close> returns and its attributes.
\<close>

record oferta =
  titulo :: string
  empresa :: string
  ubicacion :: string
  enlace :: string
  fecha_deteccion :: string
  hash :: string

record etiqueta =
  texto :: string
  atributos :: "(string \<times> string) list"

text \<open>
  What \<open>json.load\<close> returns: \<open>None\<close>, a \<open>bool\<close>, an \<open>int\<close>, a \<open>float\<close> (its 64 bits),
  a \<open>str\<close>, a \<open>list\<close> or a \<open>dict\<close> (its items in order, the keys distinct).
\<close>

datatype json =
    JNull
  | JBool bool
  | JInt int
  | JFloat "64 word"
  | JStr string
  | JArr "json list"
  | JObj "(string \<times> json) list"

datatype error = TypeError | KeyError

text \<open>What a run does to the world, in order.\<close>

datatype efecto =
    Imprimir string
  | HttpGet string
  | HttpPost string json
  | Escribir string json

fun es_post :: "efecto \<Rightarrow> bool" where
  "es_post (HttpPost u p) = True"
| "es_post e = False"

fun es_escritura :: "efecto \<Rightarrow> bool" where
  "es_escritura (Escribir f j) = True"
| "es_escritura e = False"

text \<open>The effects that reach outside the process other than by reading: a POST, a write.\<close>

definition externo :: "efecto \<Rightarrow> bool" where
  "externo e = (es_post e \<or> es_escritura e)"

text \<open>
  The page as the code sees it. An element is one container of the page with the result
  of every \<open>find\<close> the loop makes on it (\<open>None\<close> when nothing matches), and the
  exception, if the library raises one while the element is processed. A page is the
  result of the five \<open>find_all\<close> of the selector chain.
\<close>

record elemento =
  h_titulo :: "etiqueta option"
  a_titulo :: "etiqueta option"
  strong_titulo :: "etiqueta option"
  tag_empresa :: "etiqueta option"
  tag_ubicacion :: "etiqueta option"
  tag_enlace :: "etiqueta option"
  excepcion :: "string option"

record sopa =
  div_oferta :: "elemento list"
  div_job_item :: "elemento list"
  article :: "elemento list"
  div_card :: "elemento list"
  li_list_item :: "elemento list"

datatype respuesta =
    ErrorPeticion string
  | ErrorInesperado string
  | Pagina sopa

datatype archivo = Ausente | Ilegible string | Contenido json

text \<open>
  Everything a run reads from outside: the two environment variables, the state file,
  the outcome of the GET and of the POST (\<open>None\<close> for success, otherwise the message of
  the exception), the outcome of opening the state file for writing (\<open>None\<close> when it
  opens and is written, otherwise the message of the exception that \<open>open\<close> raises), the
  clock, already formatted, at the three places where the code reads it, and the
  interpreter's Unicode functions.
\<close>

record entorno =
  telegram_bot_token :: string
  telegram_chat_id :: string
  archivo_inicial :: archivo
  respuesta_get :: respuesta
  respuesta_post :: "string option"
  escritura :: "string option"
  fecha_inicio :: string
  fecha_resumen :: string
  fecha_oferta :: "nat \<Rightarrow> string"
  base_unicode :: unicode

definition url_base :: string where
  "url_base = ''https://www.santafe.gob.ar/simtyss/portalempleo/''"

definition url_busqueda :: string where
  "url_busqueda = url_base @ ''ofertas/''"

definition archivo_estado :: string where
  "archivo_estado = ''empleos_anteriores.json''"

definition nl :: string where
  "nl = [CHR 0x0A]"

subsection \<open>State store\<close>

definition oferta_json :: "oferta \<Rightarrow> json" where
  "oferta_json r = JObj
     [(''titulo'', JStr (titulo r)), (''empresa'', JStr (empresa r)),
      (''ubicacion'', JStr (ubicacion r)), (''enlace'', JStr (enlace r)),
      (''fecha_deteccion'', JStr (fecha_deteccion r)), (''hash'', JStr (hash r))]"

text \<open>The value that \<open>json.dump\<close> writes for a list of listings and \<open>json.load\<close> reads back.\<close>

definition estado_json :: "oferta list \<Rightarrow> json" where
  "estado_json empleos = JArr (map oferta_json empleos)"

fun cargar_estado :: "archivo \<Rightarrow> efecto list \<times> json" where
  "cargar_estado Ausente = ([], JArr [])"
| "cargar_estado (Ilegible e) = ([Imprimir (''Error al cargar estado: '' @ e)], JArr [])"
| "cargar_estado (Contenido j) = ([], j)"

text \<open>
  When \<open>open\<close> raises, nothing is written and the handler prints the exception;
  otherwise the whole list is written over the file.
\<close>

definition guardar_estado :: "entorno \<Rightarrow> oferta list \<Rightarrow> efecto list" where
  "guardar_estado env empleos =
     (case escritura env of
        None \<Rightarrow>
          [Escribir archivo_estado (estado_json empleos),
           Imprimir (''Estado guardado: '' @ str_nat (length empleos) @ '' ofertas'')]
      | Some e \<Rightarrow> [Imprimir (''Error al guardar estado: '' @ e)])"

subsection \<open>Extractor\<close>

definition get_href :: "etiqueta \<Rightarrow> string" where
  "get_href a = (case map_of (atributos a) ''href'' of None \<Rightarrow> [] | Some h \<Rightarrow> h)"

fun construir_enlace :: "etiqueta option \<Rightarrow> string" where
  "construir_enlace None = url_base"
| "construir_enlace (Some elemento_enlace) =
     (if startswith (get_href elemento_enlace) ''http'' then get_href elemento_enlace
      else if startswith (get_href elemento_enlace) ''/''
        then ''https://www.santafe.gob.ar'' @ get_href elemento_enlace
      else url_base @ get_href elemento_enlace)"

definition elementos_ofertas :: "sopa \<Rightarrow> elemento list" where
  "elementos_ofertas s =
     (if div_oferta s \<noteq> [] then div_oferta s
      else if div_job_item s \<noteq> [] then div_job_item s
      else if article s \<noteq> [] then article s
      else if div_card s \<noteq> [] then div_card s
      else li_list_item s)"

definition buscar_titulo :: "elemento \<Rightarrow> etiqueta option" where
  "buscar_titulo el =
     (case h_titulo el of Some t \<Rightarrow> Some t
      | None \<Rightarrow> (case a_titulo el of Some t \<Rightarrow> Some t | None \<Rightarrow> strong_titulo el))"

definition texto_o :: "etiqueta option \<Rightarrow> string \<Rightarrow> string" where
  "texto_o t defecto = (case t of Some e \<Rightarrow> texto e | None \<Rightarrow> defecto)"

text \<open>The body of the loop over the elements: the lines printed and the listing appended, if any.\<close>

definition procesar_elemento ::
  "unicode \<Rightarrow> string \<Rightarrow> elemento \<Rightarrow> efecto list \<times> oferta list" where
  "procesar_elemento U ahora el =
     (case excepcion el of
        Some e \<Rightarrow> ([Imprimir (''Error procesando elemento: '' @ e)], [])
      | None \<Rightarrow>
         (case buscar_titulo el of
            None \<Rightarrow> ([], [])
          | Some t \<Rightarrow>
             ([], [\<lparr>titulo = texto t,
                    empresa = texto_o (tag_empresa el) ''Gobierno de Santa Fe'',
                    ubicacion = texto_o (tag_ubicacion el) ''Santa Fe'',
                    enlace = construir_enlace (tag_enlace el),
                    fecha_deteccion = ahora,
                    hash = calcular_hash U (texto t)
                             (texto_o (tag_empresa el) ''Gobierno de Santa Fe'')\<rparr>])))"

fun procesar ::
  "unicode \<Rightarrow> (nat \<Rightarrow> string) \<Rightarrow> nat \<Rightarrow> elemento list \<Rightarrow> efecto list \<times> oferta list" where
  "procesar U reloj i [] = ([], [])"
| "procesar U reloj i (el # els) =
     (fst (procesar_elemento U (reloj i) el) @ fst (procesar U reloj (Suc i) els),
      snd (procesar_elemento U (reloj i) el) @ snd (procesar U reloj (Suc i) els))"

definition obtener_ofertas :: "entorno \<Rightarrow> efecto list \<times> oferta list" where
  "obtener_ofertas env =
     (case respuesta_get env of
        ErrorPeticion e \<Rightarrow>
          ([Imprimir (''Consultando: '' @ url_busqueda), HttpGet url_busqueda,
            Imprimir (''Error en la petici'' @ [CHR 0xC3, CHR 0xB3] @ ''n HTTP: '' @ e)], [])
      | ErrorInesperado e \<Rightarrow>
          ([Imprimir (''Consultando: '' @ url_busqueda), HttpGet url_busqueda,
            Imprimir (''Error inesperado: '' @ e)], [])
      | Pagina soup \<Rightarrow>
          ([Imprimir (''Consultando: '' @ url_busqueda), HttpGet url_busqueda,
            Imprimir (''Elementos encontrados: '' @ str_nat (length (elementos_ofertas soup)))] @
           fst (procesar (base_unicode env) (fecha_oferta env) 0 (elementos_ofertas soup)) @
           [Imprimir (''Ofertas procesadas: '' @
              str_nat (length (snd (procesar (base_unicode env) (fecha_oferta env) 0
                (elementos_ofertas soup)))))],
           snd (procesar (base_unicode env) (fecha_oferta env) 0 (elementos_ofertas soup))))"

subsection \<open>Diff\<close>

text \<open>
  \<^verbatim>\<open>hashes_anteriores = {emp['hash'] for emp in self.empleos_anteriores}\<close>
  on whatever \<open>json.load\<close> returned. Iterating a list gives its items, a dict its keys,
  a text its characters (each one a text, on which the subscript fails), anything else
  raises \<open>TypeError\<close>. The subscript \<open>['hash']\<close> is defined on a dict only, and raises
  \<open>KeyError\<close> without the key. A list or a dict cannot be a member of a set.
  A text is iterated byte by byte here and by code point in Python: the items are texts
  in both, so the subscript fails on the first one, and only the empty text gets through.
  The listings of the current run carry a text as hash, and a text is equal to a text
  only, so the set is one of JSON values and membership is asked for \<open>JStr\<close> values.
\<close>

fun iterar :: "json \<Rightarrow> error + json list" where
  "iterar (JArr xs) = Inr xs"
| "iterar (JObj kvs) = Inr (map (\<lambda>kv. JStr (fst kv)) kvs)"
| "iterar (JStr s) = Inr (map (\<lambda>c. JStr [c]) s)"
| "iterar j = Inl TypeError"

fun subscript_hash :: "json \<Rightarrow> error + json" where
  "subscript_hash (JObj kvs) =
     (case map_of kvs ''hash'' of None \<Rightarrow> Inl KeyError | Some v \<Rightarrow> Inr v)"
| "subscript_hash j = Inl TypeError"

fun hashable :: "json \<Rightarrow> bool" where
  "hashable (JArr xs) = False"
| "hashable (JObj kvs) = False"
| "hashable j = True"

fun hashes_de :: "json list \<Rightarrow> error + json set" where
  "hashes_de [] = Inr {}"
| "hashes_de (emp # emps) =
     (case subscript_hash emp of
        Inl e \<Rightarrow> Inl e
      | Inr v \<Rightarrow>
         if \<not> hashable v then Inl TypeError
         else (case hashes_de emps of Inl e \<Rightarrow> Inl e | Inr S \<Rightarrow> Inr (insert v S)))"

definition detectar_nuevas_ofertas ::
  "json \<Rightarrow> oferta list \<Rightarrow> error + efecto list \<times> oferta list" where
  "detectar_nuevas_ofertas empleos_anteriores ofertas_actuales =
     (case iterar empleos_anteriores of
        Inl e \<Rightarrow> Inl e
      | Inr emps \<Rightarrow>
         (case hashes_de emps of
            Inl e \<Rightarrow> Inl e
          | Inr hashes_anteriores \<Rightarrow>
             Inr ([Imprimir (''Nuevas ofertas detectadas: '' @
                    str_nat (length [oferta \<leftarrow> ofertas_actuales. JStr (hash oferta) \<notin> hashes_anteriores]))],
                  [oferta \<leftarrow> ofertas_actuales. JStr (hash oferta) \<notin> hashes_anteriores])))"

subsection \<open>Notifier\<close>

text \<open>The text of one entry of the digest, as the four \<open>+=\<close> of the loop body build it.\<close>

definition entrada :: "nat \<Rightarrow> oferta \<Rightarrow> string" where
  "entrada i oferta =
     str_nat i @ ''. *'' @ titulo oferta @ ''*'' @ nl @
     ''   '' @ [CHR 0xF0, CHR 0x9F, CHR 0x93, CHR 0x8D] @ '' '' @ ubicacion oferta @ nl @
     ''   '' @ [CHR 0xF0, CHR 0x9F, CHR 0x8F, CHR 0xA2] @ '' '' @ empresa oferta @ nl @
     ''   '' @ [CHR 0xF0, CHR 0x9F, CHR 0x94, CHR 0x97] @ '' [Ver oferta]('' @
       enlace oferta @ '')'' @ nl @ nl"

text \<open>\<^verbatim>\<open>for i, oferta in enumerate(nuevas_ofertas[:10], 1): mensaje += ...\<close>\<close>

fun entradas :: "nat \<Rightarrow> oferta list \<Rightarrow> string \<Rightarrow> string" where
  "entradas i [] mensaje = mensaje"
| "entradas i (oferta # ofertas) mensaje = entradas (Suc i) ofertas (mensaje @ entrada i oferta)"

definition encabezado :: "nat \<Rightarrow> string" where
  "encabezado n =
     [CHR 0xF0, CHR 0x9F, CHR 0x94, CHR 0x94] @ '' *Nuevas Ofertas de Empleo - Santa Fe*'' @ nl @
     ''Se detectaron '' @ str_nat n @ '' nueva(s) oferta(s)'' @ nl @ nl"

definition mensaje_telegram :: "oferta list \<Rightarrow> string" where
  "mensaje_telegram nuevas_ofertas =
     (if length nuevas_ofertas > 10
      then entradas 1 (take 10 nuevas_ofertas) (encabezado (length nuevas_ofertas)) @
           ''... y '' @ str_nat (length nuevas_ofertas - 10) @
           '' ofertas m'' @ [CHR 0xC3, CHR 0xA1] @ ''s.'' @ nl
      else entradas 1 (take 10 nuevas_ofertas) (encabezado (length nuevas_ofertas)))"

definition payload :: "entorno \<Rightarrow> string \<Rightarrow> json" where
  "payload env mensaje = JObj
     [(''chat_id'', JStr (telegram_chat_id env)), (''text'', JStr mensaje),
      (''parse_mode'', JStr ''Markdown''), (''disable_web_page_preview'', JBool True)]"

definition enviar_telegram :: "entorno \<Rightarrow> oferta list \<Rightarrow> efecto list \<times> bool" where
  "enviar_telegram env nuevas_ofertas =
     (if telegram_bot_token env = [] \<or> telegram_chat_id env = []
      then ([Imprimir (''Telegram no configurado. Saltando notificaci'' @ [CHR 0xC3, CHR 0xB3] @
               ''n.'')], False)
      else
        (case respuesta_post env of
           None \<Rightarrow>
             ([HttpPost (''https://api.telegram.org/bot'' @ telegram_bot_token env @
                 ''/sendMessage'') (payload env (mensaje_telegram nuevas_ofertas)),
               Imprimir ([CHR 0xE2, CHR 0x9C, CHR 0x93] @ '' Notificaci'' @
                 [CHR 0xC3, CHR 0xB3] @ ''n Telegram enviada exitosamente'')], True)
         | Some e \<Rightarrow>
             ([HttpPost (''https://api.telegram.org/bot'' @ telegram_bot_token env @
                 ''/sendMessage'') (payload env (mensaje_telegram nuevas_ofertas)),
               Imprimir (''Error al enviar Telegram: '' @ e)], False)))"

subsection \<open>Run controller\<close>

text \<open>
  \<open>len\<close> of the loaded state: defined on a list, a dict and a text (of which only the
  empty one reaches this point, the diff having iterated the state before).
\<close>

fun py_len :: "json \<Rightarrow> error + nat" where
  "py_len (JArr xs) = Inr (length xs)"
| "py_len (JObj kvs) = Inr (length kvs)"
| "py_len (JStr s) = Inr (length s)"
| "py_len j = Inl TypeError"

definition linea :: string where
  "linea = replicate 70 (CHR ''='')"

fun resumen_oferta :: "nat \<Rightarrow> oferta list \<Rightarrow> efecto list" where
  "resumen_oferta i [] = []"
| "resumen_oferta i (oferta # ofertas) =
     [Imprimir (nl @ str_nat i @ ''. '' @ titulo oferta),
      Imprimir (''   Empresa: '' @ empresa oferta),
      Imprimir (''   Ubicaci'' @ [CHR 0xC3, CHR 0xB3] @ ''n: '' @ ubicacion oferta),
      Imprimir (''   Link: '' @ enlace oferta)] @ resumen_oferta (Suc i) ofertas"

text \<open>The lines printed, and the exception if \<open>len(self.empleos_anteriores)\<close> raises.\<close>

definition generar_resumen ::
  "entorno \<Rightarrow> json \<Rightarrow> oferta list \<Rightarrow> oferta list \<Rightarrow> efecto list \<times> error option" where
  "generar_resumen env empleos_anteriores nuevas_ofertas ofertas_totales =
     (case py_len empleos_anteriores of
        Inl e \<Rightarrow>
          ([Imprimir (nl @ linea),
            Imprimir (''RESUMEN DE MONITOREO - '' @ fecha_resumen env),
            Imprimir linea,
            Imprimir (''Ofertas totales en el portal: '' @ str_nat (length ofertas_totales)),
            Imprimir (''Ofertas nuevas detectadas: '' @ str_nat (length nuevas_ofertas))],
           Some e)
      | Inr n \<Rightarrow>
          ([Imprimir (nl @ linea),
            Imprimir (''RESUMEN DE MONITOREO - '' @ fecha_resumen env),
            Imprimir linea,
            Imprimir (''Ofertas totales en el portal: '' @ str_nat (length ofertas_totales)),
            Imprimir (''Ofertas nuevas detectadas: '' @ str_nat (length nuevas_ofertas)),
            Imprimir (''Ofertas ya conocidas: '' @ str_nat n)] @
           (if nuevas_ofertas \<noteq> []
            then Imprimir (nl @ ''NUEVAS OFERTAS:'') # resumen_oferta 1 nuevas_ofertas
            else [Imprimir (nl @ ''No se detectaron nuevas ofertas en esta ejecuci'' @
                    [CHR 0xC3, CHR 0xB3] @ ''n.'')]) @
           [Imprimir (nl @ linea @ nl)],
           None))"

definition aviso :: string where
  "aviso = [CHR 0xE2, CHR 0x9A, CHR 0xA0, CHR 0xEF, CHR 0xB8, CHR 0x8F] @
     ''  No se pudieron obtener ofertas. Verificar conectividad o estructura del sitio.''"

text \<open>
  \<open>ejecutar\<close>: the effects of the run in order, and the exception that leaves it, if any.
\<close>

definition ejecutar :: "entorno \<Rightarrow> json \<Rightarrow> efecto list \<times> error option" where
  "ejecutar env empleos_anteriores =
     (if snd (obtener_ofertas env) = []
      then ([Imprimir (''Iniciando verificaci'' @ [CHR 0xC3, CHR 0xB3] @
                ''n de ofertas de empleo...''),
             Imprimir (''Fecha/Hora: '' @ fecha_inicio env)] @
            fst (obtener_ofertas env) @ [Imprimir aviso], None)
      else
        (case detectar_nuevas_ofertas empleos_anteriores (snd (obtener_ofertas env)) of
           Inl e \<Rightarrow>
             ([Imprimir (''Iniciando verificaci'' @ [CHR 0xC3, CHR 0xB3] @
                 ''n de ofertas de empleo...''),
               Imprimir (''Fecha/Hora: '' @ fecha_inicio env)] @
              fst (obtener_ofertas env), Some e)
         | Inr (log, nuevas_ofertas) \<Rightarrow>
            (case generar_resumen env empleos_anteriores nuevas_ofertas
                    (snd (obtener_ofertas env)) of
               (resumen, Some e) \<Rightarrow>
                 ([Imprimir (''Iniciando verificaci'' @ [CHR 0xC3, CHR 0xB3] @
                     ''n de ofertas de empleo...''),
                   Imprimir (''Fecha/Hora: '' @ fecha_inicio env)] @
                  fst (obtener_ofertas env) @ log @ resumen, Some e)
             | (resumen, None) \<Rightarrow>
                 ([Imprimir (''Iniciando verificaci'' @ [CHR 0xC3, CHR 0xB3] @
                     ''n de ofertas de empleo...''),
                   Imprimir (''Fecha/Hora: '' @ fecha_inicio env)] @
                  fst (obtener_ofertas env) @ log @ resumen @
                  (if nuevas_ofertas \<noteq> [] then fst (enviar_telegram env nuevas_ofertas)
                   else []) @
                  guardar_estado env (snd (obtener_ofertas env)) @
                  [Imprimir ([CHR 0xE2, CHR 0x9C, CHR 0x93] @ '' Verificaci'' @
                     [CHR 0xC3, CHR 0xB3] @ ''n completada'')],
                  None))))"

text \<open>
  The whole process: \<open>MonitorEmpleoCloud()\<close> loads the state, then \<open>ejecutar()\<close> runs.
\<close>

definition principal :: "entorno \<Rightarrow> efecto list \<times> error option" where
  "principal env =
     (fst (cargar_estado (archivo_inicial env)) @
        fst (ejecutar env (snd (cargar_estado (archivo_inicial env)))),
      snd (ejecutar env (snd (cargar_estado (archivo_inicial env)))))"

subsection \<open>Example data\<close>

definition elemento_ejemplo :: "string \<Rightarrow> elemento" where
  "elemento_ejemplo t =
     \<lparr>h_titulo = Some \<lparr>texto = t, atributos = []\<rparr>, a_titulo = None, strong_titulo = None,
      tag_empresa = None, tag_ubicacion = None, tag_enlace = None, excepcion = None\<rparr>"

text \<open>
  The examples are ASCII texts, on which the Unicode functions are not consulted; the
  record of the examples leaves any other text as it is.
\<close>

definition unicode_ejemplo :: unicode where
  "unicode_ejemplo = \<lparr>lower_u = (\<lambda>s. s), strip_u = (\<lambda>s. s)\<rparr>"

definition entorno_ejemplo :: "archivo \<Rightarrow> respuesta \<Rightarrow> entorno" where
  "entorno_ejemplo f r =
     \<lparr>telegram_bot_token = ''123:abc'', telegram_chat_id = ''42'', archivo_inicial = f,
      respuesta_get = r, respuesta_post = None, escritura = None,
      fecha_inicio = ''2025-01-01 08:00:00'', fecha_resumen = ''2025-01-01 08:00:01'',
      fecha_oferta = (\<lambda>i. ''2025-01-01T08:00:00.500000''),
      base_unicode = unicode_ejemplo\<rparr>"

definition pagina_ejemplo :: respuesta where
  "pagina_ejemplo = Pagina
     \<lparr>div_oferta = [elemento_ejemplo ''Chef''], div_job_item = [], article = [],
      div_card = [], li_list_item = []\<rparr>"

text \<open>A page that lists the same post twice.\<close>

definition pagina_repetida :: respuesta where
  "pagina_repetida = Pagina
     \<lparr>div_oferta = [elemento_ejemplo ''Chef'', elemento_ejemplo ''Chef''], div_job_item = [],
      article = [], div_card = [], li_list_item = []\<rparr>"

text \<open>The listing that the extractor makes of \<open>elemento_ejemplo ''Chef''\<close> in the examples.\<close>

definition oferta_chef :: oferta where
  "oferta_chef =
     \<lparr>titulo = ''Chef'', empresa = ''Gobierno de Santa Fe'', ubicacion = ''Santa Fe'',
      enlace = url_base, fecha_deteccion = ''2025-01-01T08:00:00.500000'',
      hash = calcular_hash unicode_ejemplo ''Chef'' ''Gobierno de Santa Fe''\<rparr>"

definition oferta_ejemplo :: "string \<Rightarrow> string \<Rightarrow> oferta" where
  "oferta_ejemplo t h =
     \<lparr>titulo = t, empresa = ''Acme'', ubicacion = ''Rosario'',
      enlace = ''https://www.santafe.gob.ar/ofertas/5'',
      fecha_deteccion = ''2025-01-01T08:00:00.500000'', hash = h\<rparr>"

section \<open>Properties of the fingerprint\<close>









text \<open>The digest has 32 characters.\<close>

lemma length_md5_hexdigest: "length (md5_hexdigest m) = 32"
proof -
  have "[0..<4] = [0, 1, 2, 3]" by (simp add: upt_conv_Cons)
  then have "length (hex_palabra w) = 8" for w
    by (simp add: hex_palabra_def)
  then show ?thesis
    by (cases "md5 m") (simp add: md5_hexdigest_def)
qed

text \<open>
  The definitions compute the digests of the test suite of RFC 1321: the empty message,
  a short one, and one of two blocks.
\<close>

lemma md5_rfc_1321:
  "md5_hexdigest '''' = ''d41d8cd98f00b204e9800998ecf8427e''"
  "md5_hexdigest ''abc'' = ''900150983cd24fb0d6963f7d28e17f72''"
  "md5_hexdigest
     ''12345678901234567890123456789012345678901234567890123456789012345678901234567890'' =
   ''57edf4a22be3c955ac49da2e2107b67a''"
  by code_simp+












section \<open>Properties of the diff\<close>

lemma hashes_de_ofertas:
  "hashes_de (map oferta_json xs) = Inr ((\<lambda>x. JStr (hash x)) ` set xs)"
  by (induction xs) (simp_all add: oferta_json_def)

lemma detectar_estado_json:
  "detectar_nuevas_ofertas (estado_json anteriores) actuales =
     Inr ([Imprimir (''Nuevas ofertas detectadas: '' @
             str_nat (length [x \<leftarrow> actuales. hash x \<notin> hash ` set anteriores]))],
          [x \<leftarrow> actuales. hash x \<notin> hash ` set anteriores])"
proof -
  have eq: "(JStr (hash x) \<in> (\<lambda>x. JStr (hash x)) ` set anteriores) =
      (hash x \<in> hash ` set anteriores)" for x
    by auto
  show ?thesis
    by (simp add: detectar_nuevas_ofertas_def estado_json_def hashes_de_ofertas eq)
qed

lemma subseq_par:
  "i < j \<Longrightarrow> j < length xs \<Longrightarrow> subseq [xs ! i, xs ! j] xs"
proof (induction xs arbitrary: i j)
  case Nil
  then show ?case by simp
next
  case (Cons x xs)
  from Cons.prems obtain j' where j: "j = Suc j'" "j' < length xs"
    by (cases j) auto
  show ?case
  proof (cases i)
    case 0
    then show ?thesis using j by (simp add: subseq_singleton_left)
  next
    case (Suc i')
    with Cons.prems j have "i' < j'" by simp
    then have "subseq [xs ! i', xs ! j'] xs" using j(2) by (rule Cons.IH)
    then have "subseq [xs ! i', xs ! j'] (x # xs)" by (rule list_emb_Cons)
    then show ?thesis using Suc j by simp
  qed
qed

lemma subseq_filter_todos:
  "subseq ys xs \<Longrightarrow> \<forall>y\<in>set ys. P y \<Longrightarrow> subseq ys (filter P xs)"
proof -
  assume s: "subseq ys xs" and p: "\<forall>y\<in>set ys. P y"
  from s have "subseq (filter P ys) (filter P xs)" by (rule subseq_filter)
  moreover from p have "filter P ys = ys" by (simp add: filter_id_conv)
  ultimately show ?thesis by simp
qed

text \<open>
  C3: against a previous state that is a list of listings, as a run persists it, the diff
  returns the listings of the current run whose hash is not the hash of a previous
  listing, in the order of the current run: it is that filter of the current list, so a
  subsequence of it, and a listing is in it exactly when it is current and its hash is
  not a previous one.
\<close>

theorem detectar_nuevas_ofertas_filtra:
  "detectar_nuevas_ofertas (estado_json anteriores) actuales =
     Inr ([Imprimir (''Nuevas ofertas detectadas: '' @
             str_nat (length [x \<leftarrow> actuales. hash x \<notin> hash ` set anteriores]))],
          [x \<leftarrow> actuales. hash x \<notin> hash ` set anteriores])
   \<and> subseq [x \<leftarrow> actuales. hash x \<notin> hash ` set anteriores] actuales
   \<and> set [x \<leftarrow> actuales. hash x \<notin> hash ` set anteriores] =
       {x. x \<in> set actuales \<and> hash x \<notin> hash ` set anteriores}"
  by (simp add: detectar_estado_json)

text \<open>
  C5: against the empty state the diff returns the current list as it is; and the empty
  state is what a missing or unreadable state file is loaded as.
\<close>

theorem detectar_nuevas_ofertas_inicial:
  "detectar_nuevas_ofertas (estado_json []) actuales =
     Inr ([Imprimir (''Nuevas ofertas detectadas: '' @ str_nat (length actuales))], actuales)
   \<and> snd (cargar_estado Ausente) = estado_json []
   \<and> snd (cargar_estado (Ilegible e)) = estado_json []"
  by (simp add: detectar_estado_json) (simp add: estado_json_def)

text \<open>
  C9: two listings of the current run with the same hash, a hash that no previous listing
  has, are both in the diff, in their order. And in the run that extracted the current
  list and loaded the previous one, no exception leaves the run, the summary prints the
  entries of all the new listings, the POST (when the notifier is configured) carries the
  digest of all of them, and the state written (when the file opens) is the whole
  current list, the two included.
\<close>

theorem sin_deduplicacion:
  assumes "i < j" and "j < length actuales"
    and "hash (actuales ! i) = hash (actuales ! j)"
    and "hash (actuales ! i) \<notin> hash ` set anteriores"
  shows "\<exists>log nuevas.
           detectar_nuevas_ofertas (estado_json anteriores) actuales = Inr (log, nuevas) \<and>
           subseq [actuales ! i, actuales ! j] nuevas \<and>
           (snd (obtener_ofertas env) = actuales \<and>
            snd (cargar_estado (archivo_inicial env)) = estado_json anteriores \<longrightarrow>
              snd (principal env) = None \<and>
              set (resumen_oferta 1 nuevas) \<subseteq> set (fst (principal env)) \<and>
              (telegram_bot_token env \<noteq> [] \<and> telegram_chat_id env \<noteq> [] \<longrightarrow>
                 HttpPost (''https://api.telegram.org/bot'' @ telegram_bot_token env @
                     ''/sendMessage'') (payload env (mensaje_telegram nuevas))
                   \<in> set (fst (principal env))) \<and>
              (escritura env = None \<longrightarrow>
                 Escribir archivo_estado (estado_json actuales) \<in> set (fst (principal env))))"
proof -
  let ?nuevas = "[x \<leftarrow> actuales. hash x \<notin> hash ` set anteriores]"
  have "subseq [actuales ! i, actuales ! j] actuales"
    using assms(1,2) by (rule subseq_par)
  moreover have "\<forall>y\<in>set [actuales ! i, actuales ! j]. hash y \<notin> hash ` set anteriores"
    using assms(3,4) by simp
  ultimately have sub: "subseq [actuales ! i, actuales ! j] ?nuevas"
    by (rule subseq_filter_todos)
  then have nv: "?nuevas \<noteq> []" by auto
  have ac: "actuales \<noteq> []" using assms(2) by auto
  have run: "snd (principal env) = None \<and>
      set (resumen_oferta 1 ?nuevas) \<subseteq> set (fst (principal env)) \<and>
      (telegram_bot_token env \<noteq> [] \<and> telegram_chat_id env \<noteq> [] \<longrightarrow>
         HttpPost (''https://api.telegram.org/bot'' @ telegram_bot_token env @
             ''/sendMessage'') (payload env (mensaje_telegram ?nuevas))
           \<in> set (fst (principal env))) \<and>
      (escritura env = None \<longrightarrow>
         Escribir archivo_estado (estado_json actuales) \<in> set (fst (principal env)))"
    if o: "snd (obtener_ofertas env) = actuales"
      and c: "snd (cargar_estado (archivo_inicial env)) = estado_json anteriores"
  proof -
    have len: "py_len (estado_json anteriores) = Inr (length anteriores)"
      by (simp add: estado_json_def)
    show ?thesis
      using nv ac
      by (auto simp: principal_def ejecutar_def o c detectar_estado_json generar_resumen_def
          len enviar_telegram_def guardar_estado_def split: option.splits)
  qed
  show ?thesis
    using sub run by (simp add: detectar_estado_json)
qed

text \<open>
  A page that lists the post \<open>Chef\<close> twice, after a run that saw another post: both
  listings are new, are printed, sent and written.
\<close>

theorem sin_deduplicacion_witness:
  "\<exists>log nuevas.
     detectar_nuevas_ofertas (estado_json [oferta_ejemplo ''Mozo'' ''h0''])
       [oferta_chef, oferta_chef] = Inr (log, nuevas) \<and>
     subseq [oferta_chef, oferta_chef] nuevas \<and>
     snd (obtener_ofertas (entorno_ejemplo
       (Contenido (estado_json [oferta_ejemplo ''Mozo'' ''h0''])) pagina_repetida)) =
       [oferta_chef, oferta_chef] \<and>
     snd (principal (entorno_ejemplo
       (Contenido (estado_json [oferta_ejemplo ''Mozo'' ''h0''])) pagina_repetida)) = None \<and>
     set (resumen_oferta 1 nuevas) \<subseteq> set (fst (principal (entorno_ejemplo
       (Contenido (estado_json [oferta_ejemplo ''Mozo'' ''h0''])) pagina_repetida))) \<and>
     HttpPost ''https://api.telegram.org/bot123:abc/sendMessage''
       (payload (entorno_ejemplo
          (Contenido (estado_json [oferta_ejemplo ''Mozo'' ''h0''])) pagina_repetida)
          (mensaje_telegram nuevas))
       \<in> set (fst (principal (entorno_ejemplo
         (Contenido (estado_json [oferta_ejemplo ''Mozo'' ''h0''])) pagina_repetida))) \<and>
     Escribir archivo_estado (estado_json [oferta_chef, oferta_chef])
       \<in> set (fst (principal (entorno_ejemplo
         (Contenido (estado_json [oferta_ejemplo ''Mozo'' ''h0''])) pagina_repetida)))"
proof -
  let ?env = "entorno_ejemplo
       (Contenido (estado_json [oferta_ejemplo ''Mozo'' ''h0''])) pagina_repetida"
  have o: "snd (obtener_ofertas ?env) = [oferta_chef, oferta_chef]"
    by (simp add: obtener_ofertas_def entorno_ejemplo_def pagina_repetida_def
        elemento_ejemplo_def elementos_ofertas_def procesar_elemento_def buscar_titulo_def
        texto_o_def oferta_chef_def)
  have c: "snd (cargar_estado (archivo_inicial ?env)) =
      estado_json [oferta_ejemplo ''Mozo'' ''h0'']"
    by (simp add: entorno_ejemplo_def)
  have "length (hash oferta_chef) = 32"
    by (simp add: oferta_chef_def calcular_hash_def length_md5_hexdigest)
  then have h: "hash ([oferta_chef, oferta_chef] ! 0) \<notin>
      hash ` set [oferta_ejemplo ''Mozo'' ''h0'']"
    by (auto simp: oferta_ejemplo_def)
  have t: "telegram_bot_token ?env = ''123:abc''" "telegram_chat_id ?env = ''42''"
    "escritura ?env = None"
    by (simp_all add: entorno_ejemplo_def)
  from sin_deduplicacion [of 0 1 "[oferta_chef, oferta_chef]"
      "[oferta_ejemplo ''Mozo'' ''h0'']" ?env, OF _ _ _ h]
  show ?thesis
    unfolding o c t by simp
qed

text \<open>
  C10: two previous states with the same set of hashes give the same diff, whatever
  their other fields, their order and their repetitions.
\<close>

theorem detectar_nuevas_ofertas_no_interferencia:
  "hash ` set p1 = hash ` set p2 \<Longrightarrow>
     detectar_nuevas_ofertas (estado_json p1) actuales =
     detectar_nuevas_ofertas (estado_json p2) actuales"
  by (simp add: detectar_estado_json)

theorem detectar_nuevas_ofertas_no_interferencia_witness:
  "hash ` set [oferta_ejemplo ''Chef'' ''h1'', oferta_ejemplo ''Mozo'' ''h2'',
               oferta_ejemplo ''Cocinero'' ''h1''] =
   hash ` set [oferta_ejemplo ''Camarero'' ''h2'', oferta_ejemplo ''Chef'' ''h1'']
   \<and> detectar_nuevas_ofertas
        (estado_json [oferta_ejemplo ''Chef'' ''h1'', oferta_ejemplo ''Mozo'' ''h2'',
                      oferta_ejemplo ''Cocinero'' ''h1''])
        [oferta_ejemplo ''Chef'' ''h1'', oferta_ejemplo ''Guardia'' ''h3''] =
      detectar_nuevas_ofertas
        (estado_json [oferta_ejemplo ''Camarero'' ''h2'', oferta_ejemplo ''Chef'' ''h1''])
        [oferta_ejemplo ''Chef'' ''h1'', oferta_ejemplo ''Guardia'' ''h3'']"
proof -
  have h: "hash ` set [oferta_ejemplo ''Chef'' ''h1'', oferta_ejemplo ''Mozo'' ''h2'',
               oferta_ejemplo ''Cocinero'' ''h1''] =
      hash ` set [oferta_ejemplo ''Camarero'' ''h2'', oferta_ejemplo ''Chef'' ''h1'']"
    by (auto simp: oferta_ejemplo_def)
  from h detectar_nuevas_ofertas_no_interferencia [OF h] show ?thesis
    by (rule conjI)
qed

text \<open>
  C8: two pairs of title and employer whose concatenations agree once lower-cased and
  trimmed have the same fingerprint, and the diff takes them for one listing: a current
  listing with the fingerprint of one pair is not new when a previous listing has the
  fingerprint of the other.
\<close>

theorem calcular_hash_colision:
  assumes "py_strip U (py_lower U (t1 @ e1)) = py_strip U (py_lower U (t2 @ e2))"
  shows "calcular_hash U t1 e1 = calcular_hash U t2 e2
    \<and> (hash a = calcular_hash U t1 e1 \<and> hash b = calcular_hash U t2 e2 \<and>
        b \<in> set anteriores \<and>
        detectar_nuevas_ofertas (estado_json anteriores) actuales = Inr (log, nuevas)
        \<longrightarrow> a \<notin> set nuevas)"
proof (intro conjI impI)
  show eq: "calcular_hash U t1 e1 = calcular_hash U t2 e2"
    using assms by (simp add: calcular_hash_def)
  assume h: "hash a = calcular_hash U t1 e1 \<and> hash b = calcular_hash U t2 e2 \<and>
        b \<in> set anteriores \<and>
        detectar_nuevas_ofertas (estado_json anteriores) actuales = Inr (log, nuevas)"
  then have "nuevas = [x \<leftarrow> actuales. hash x \<notin> hash ` set anteriores]"
    by (simp add: detectar_estado_json)
  moreover from h eq have "hash a \<in> hash ` set anteriores"
    by (metis imageI)
  ultimately show "a \<notin> set nuevas" by simp
qed

text \<open>The pairs \<open>("ab", "c")\<close> and \<open>("a", "bc")\<close>.\<close>

theorem calcular_hash_colision_witness:
  "calcular_hash unicode_ejemplo ''ab'' ''c'' = calcular_hash unicode_ejemplo ''a'' ''bc''
   \<and> detectar_nuevas_ofertas
        (estado_json [oferta_ejemplo ''a'' (calcular_hash unicode_ejemplo ''a'' ''bc'')])
        [oferta_ejemplo ''ab'' (calcular_hash unicode_ejemplo ''ab'' ''c'')] =
      Inr ([Imprimir ''Nuevas ofertas detectadas: 0''], [])"
proof -
  have n: "py_strip unicode_ejemplo (py_lower unicode_ejemplo (''ab'' @ ''c'')) =
      py_strip unicode_ejemplo (py_lower unicode_ejemplo (''a'' @ ''bc''))"
    by simp
  from calcular_hash_colision [OF n]
  have eq: "calcular_hash unicode_ejemplo ''ab'' ''c'' = calcular_hash unicode_ejemplo ''a'' ''bc''"
    by (rule conjunct1)
  have "str_nat 0 = ''0''" by code_simp
  then show ?thesis using eq
    by (simp add: detectar_estado_json oferta_ejemplo_def)
qed

section \<open>Properties of the link\<close>

text \<open>
  C2, as stated, fails. A relative \<open>href\<close> is appended to the base portal URL, not to
  the search path: \<open>"5"\<close> does not give the search path followed by \<open>"5"\<close>. And the
  test for an absolute link is the prefix \<open>"http"\<close>, not a scheme: \<open>"ftp://x.com/a"\<close> is
  not returned unchanged.
\<close>

theorem construir_enlace_contraejemplo:
  "construir_enlace (Some \<lparr>texto = ''Ver'', atributos = [(''href'', ''5'')]\<rparr>) \<noteq>
     url_busqueda @ ''5''
   \<and> construir_enlace (Some \<lparr>texto = ''Ver'', atributos = [(''href'', ''ftp://x.com/a'')]\<rparr>) \<noteq>
     ''ftp://x.com/a''"
  by (simp add: get_href_def startswith_def url_base_def url_busqueda_def)

text \<open>
  C2, amended: with no anchor the link is the base portal URL; an \<open>href\<close> that starts
  with \<open>"http"\<close> is returned unchanged; otherwise one that starts with \<open>"/"\<close> is
  prefixed with \<open>"https://www.santafe.gob.ar"\<close>; any other is appended to the base
  portal URL. An anchor without the attribute counts as the empty \<open>href\<close>.
\<close>

theorem construir_enlace_casos:
  "construir_enlace None = url_base
   \<and> (startswith (get_href a) ''http'' \<longrightarrow> construir_enlace (Some a) = get_href a)
   \<and> (\<not> startswith (get_href a) ''http'' \<and> startswith (get_href a) ''/'' \<longrightarrow>
        construir_enlace (Some a) = ''https://www.santafe.gob.ar'' @ get_href a)
   \<and> (\<not> startswith (get_href a) ''http'' \<and> \<not> startswith (get_href a) ''/'' \<longrightarrow>
        construir_enlace (Some a) = url_base @ get_href a)"
  by simp

theorem construir_enlace_casos_witness:
  "construir_enlace None = ''https://www.santafe.gob.ar/simtyss/portalempleo/''
   \<and> construir_enlace (Some \<lparr>texto = ''Ver'', atributos = [(''href'', ''https://x.com/a'')]\<rparr>) =
       ''https://x.com/a''
   \<and> construir_enlace (Some \<lparr>texto = ''Ver'', atributos = [(''href'', ''/ofertas/5'')]\<rparr>) =
       ''https://www.santafe.gob.ar/ofertas/5''
   \<and> construir_enlace (Some \<lparr>texto = ''Ver'', atributos = [(''href'', ''5'')]\<rparr>) =
       ''https://www.santafe.gob.ar/simtyss/portalempleo/5''
   \<and> construir_enlace (Some \<lparr>texto = ''Ver'', atributos = [(''class'', ''btn'')]\<rparr>) =
       ''https://www.santafe.gob.ar/simtyss/portalempleo/''"
  using construir_enlace_casos [of "\<lparr>texto = ''Ver'', atributos = [(''href'', ''https://x.com/a'')]\<rparr>"]
    construir_enlace_casos [of "\<lparr>texto = ''Ver'', atributos = [(''href'', ''/ofertas/5'')]\<rparr>"]
    construir_enlace_casos [of "\<lparr>texto = ''Ver'', atributos = [(''href'', ''5'')]\<rparr>"]
    construir_enlace_casos [of "\<lparr>texto = ''Ver'', atributos = [(''class'', ''btn'')]\<rparr>"]
  by (simp add: get_href_def startswith_def url_base_def)

section \<open>Properties of the notifier\<close>

lemma entradas_concat:
  "entradas i xs m = m @ concat (map (\<lambda>k. entrada (i + k) (xs ! k)) [0..<length xs])"
proof (induction xs arbitrary: i m)
  case Nil
  then show ?case by simp
next
  case (Cons x xs)
  have "[0..<length (x # xs)] = 0 # map Suc [0..<length xs]"
    by (simp add: upt_conv_Cons map_Suc_upt del: upt_Suc)
  then show ?case
    by (simp add: Cons.IH comp_def del: upt_Suc)
qed

lemma sublist_prefijo: "sublist xs ys \<Longrightarrow> sublist xs (ps @ ys)"
  unfolding sublist_def by (metis append.assoc)

lemma sublist_entrada:
  "sublist (titulo r) (entrada i r) \<and> sublist (ubicacion r) (entrada i r) \<and>
   sublist (empresa r) (entrada i r) \<and> sublist (enlace r) (entrada i r)"
  unfolding entrada_def
  by (intro conjI sublist_appendI sublist_prefijo)

lemma sublist_encabezado: "sublist (str_nat n) (encabezado n)"
  unfolding encabezado_def
  by (intro sublist_appendI sublist_prefijo)

text \<open>
  C7: the digest is the heading, which contains the number of new listings, then the
  entries of the first ten listings at most, in order and numbered from 1, each with the
  title, the location, the employer and the link of its listing, then, exactly when
  there are more than ten, the line with the number of listings left out.
\<close>

theorem mensaje_telegram_formato:
  "mensaje_telegram nuevas =
     encabezado (length nuevas) @
     concat (map (\<lambda>k. entrada (Suc k) (nuevas ! k)) [0..<min 10 (length nuevas)]) @
     (if 10 < length nuevas
      then ''... y '' @ str_nat (length nuevas - 10) @ '' ofertas m'' @ [CHR 0xC3, CHR 0xA1] @
           ''s.'' @ nl
      else [])
   \<and> sublist (str_nat (length nuevas)) (encabezado (length nuevas))
   \<and> (\<forall>k<min 10 (length nuevas).
        sublist (titulo (nuevas ! k)) (entrada (Suc k) (nuevas ! k)) \<and>
        sublist (ubicacion (nuevas ! k)) (entrada (Suc k) (nuevas ! k)) \<and>
        sublist (empresa (nuevas ! k)) (entrada (Suc k) (nuevas ! k)) \<and>
        sublist (enlace (nuevas ! k)) (entrada (Suc k) (nuevas ! k)))"
proof (intro conjI allI impI)
  have "map (\<lambda>k. entrada (1 + k) (take 10 nuevas ! k)) [0..<length (take 10 nuevas)] =
      map (\<lambda>k. entrada (Suc k) (nuevas ! k)) [0..<min 10 (length nuevas)]"
    by (rule map_cong) (simp_all add: min.commute)
  then have ent: "entradas 1 (take 10 nuevas) m =
      m @ concat (map (\<lambda>k. entrada (Suc k) (nuevas ! k)) [0..<min 10 (length nuevas)])" for m
    by (simp only: entradas_concat)
  show "mensaje_telegram nuevas =
     encabezado (length nuevas) @
     concat (map (\<lambda>k. entrada (Suc k) (nuevas ! k)) [0..<min 10 (length nuevas)]) @
     (if 10 < length nuevas
      then ''... y '' @ str_nat (length nuevas - 10) @ '' ofertas m'' @ [CHR 0xC3, CHR 0xA1] @
           ''s.'' @ nl
      else [])"
    unfolding mensaje_telegram_def ent by simp
qed (simp_all add: sublist_encabezado sublist_entrada)

lemma str_nat_valores: "str_nat 1 = ''1''" "str_nat 2 = ''2''" "str_nat 11 = ''11''"
  by code_simp+

theorem mensaje_telegram_formato_witness:
  "mensaje_telegram [oferta_ejemplo ''Chef'' ''h1'', oferta_ejemplo ''Mozo'' ''h2''] =
     encabezado 2 @ entrada 1 (oferta_ejemplo ''Chef'' ''h1'') @
     entrada 2 (oferta_ejemplo ''Mozo'' ''h2'')
   \<and> sublist ''2'' (encabezado 2)
   \<and> sublist ''Chef'' (entrada 1 (oferta_ejemplo ''Chef'' ''h1''))
   \<and> sublist ''Rosario'' (entrada 1 (oferta_ejemplo ''Chef'' ''h1''))
   \<and> sublist ''Acme'' (entrada 1 (oferta_ejemplo ''Chef'' ''h1''))
   \<and> sublist ''https://www.santafe.gob.ar/ofertas/5'' (entrada 1 (oferta_ejemplo ''Chef'' ''h1''))
   \<and> mensaje_telegram (replicate 11 (oferta_ejemplo ''Chef'' ''h1'')) =
       encabezado 11 @
       concat (map (\<lambda>k. entrada (Suc k) (oferta_ejemplo ''Chef'' ''h1'')) [0..<10]) @
       ''... y 1 ofertas m'' @ [CHR 0xC3, CHR 0xA1] @ ''s.'' @ nl"
proof -
  let ?c = "oferta_ejemplo ''Chef'' ''h1''" and ?m = "oferta_ejemplo ''Mozo'' ''h2''"
  have l2: "length [?c, ?m] = 2" "min 10 (2::nat) = 2" "[0..<2] = [0, 1]"
    by (simp_all add: upt_conv_Cons)
  have s2: "Suc 0 = 1" "Suc 1 = 2" "[?c, ?m] ! 0 = ?c" "[?c, ?m] ! 1 = ?m"
    by simp_all
  have d: "titulo ?c = ''Chef''" "ubicacion ?c = ''Rosario''" "empresa ?c = ''Acme''"
    "enlace ?c = ''https://www.santafe.gob.ar/ofertas/5''"
    by (simp_all add: oferta_ejemplo_def)
  note t2 = mensaje_telegram_formato [of "[?c, ?m]", unfolded l2]
  have p1: "mensaje_telegram [?c, ?m] = encabezado 2 @ entrada 1 ?c @ entrada 2 ?m"
    using conjunct1 [OF t2] by (simp only: list.map concat.simps s2 append_Nil2) simp
  have p2: "sublist ''2'' (encabezado 2)"
    using conjunct1 [OF conjunct2 [OF t2]] by (simp only: str_nat_valores)
  have "(0::nat) < 2" by simp
  with conjunct2 [OF conjunct2 [OF t2]]
  have p3: "sublist (titulo ([?c, ?m] ! 0)) (entrada (Suc 0) ([?c, ?m] ! 0)) \<and>
        sublist (ubicacion ([?c, ?m] ! 0)) (entrada (Suc 0) ([?c, ?m] ! 0)) \<and>
        sublist (empresa ([?c, ?m] ! 0)) (entrada (Suc 0) ([?c, ?m] ! 0)) \<and>
        sublist (enlace ([?c, ?m] ! 0)) (entrada (Suc 0) ([?c, ?m] ! 0))"
    by blast
  have l11: "length (replicate 11 ?c) = 11" "min 10 (11::nat) = 10" "(10::nat) < 11"
    "(11::nat) - 10 = 1"
    by simp_all
  have c: "map (\<lambda>k. entrada (Suc k) (replicate 11 ?c ! k)) [0..<10] =
      map (\<lambda>k. entrada (Suc k) ?c) [0..<10]"
    by (rule map_cong) simp_all
  note t11 = mensaje_telegram_formato [of "replicate 11 ?c", unfolded l11 c]
  have p4: "mensaje_telegram (replicate 11 ?c) =
       encabezado 11 @ concat (map (\<lambda>k. entrada (Suc k) ?c) [0..<10]) @
       ''... y 1 ofertas m'' @ [CHR 0xC3, CHR 0xA1] @ ''s.'' @ nl"
    using conjunct1 [OF t11] by (simp only: str_nat_valores if_True) simp
  from p1 p2 p3 p4 show ?thesis
    by (simp only: s2 d)
qed

section \<open>Properties of the run\<close>

lemma procesar_elemento_log: "filter externo (fst (procesar_elemento U ahora el)) = []"
  by (simp add: procesar_elemento_def externo_def split: option.splits)

lemma procesar_log: "filter externo (fst (procesar U reloj i els)) = []"
  by (induction els arbitrary: i) (simp_all add: procesar_elemento_log)

lemma obtener_ofertas_log: "filter externo (fst (obtener_ofertas env)) = []"
  by (simp add: obtener_ofertas_def procesar_log externo_def split: respuesta.splits)

lemma cargar_estado_log: "filter externo (fst (cargar_estado f)) = []"
  by (cases f) (simp_all add: externo_def)

text \<open>
  C6: a run whose extraction gives no listing ends without an exception, makes no POST
  and no write, and the last thing it does is print the warning; and a failed request,
  of either kind, gives no listing.
\<close>

theorem ejecutar_sin_ofertas:
  "(snd (obtener_ofertas env) = [] \<longrightarrow>
      snd (principal env) = None \<and>
      filter externo (fst (principal env)) = [] \<and>
      last (fst (principal env)) = Imprimir aviso)
   \<and> (respuesta_get env = ErrorPeticion m \<or> respuesta_get env = ErrorInesperado m \<longrightarrow>
        snd (obtener_ofertas env) = [])"
proof (intro conjI impI)
  assume v: "snd (obtener_ofertas env) = []"
  then show "snd (principal env) = None"
    by (simp add: principal_def ejecutar_def)
  from v show "filter externo (fst (principal env)) = []"
    by (simp add: principal_def ejecutar_def cargar_estado_log obtener_ofertas_log externo_def)
  from v show "last (fst (principal env)) = Imprimir aviso"
    by (simp add: principal_def ejecutar_def)
next
  assume "respuesta_get env = ErrorPeticion m \<or> respuesta_get env = ErrorInesperado m"
  then show "snd (obtener_ofertas env) = []"
    by (auto simp: obtener_ofertas_def)
qed

theorem ejecutar_sin_ofertas_witness:
  "snd (principal (entorno_ejemplo (Contenido (estado_json [oferta_ejemplo ''Chef'' ''h1'']))
          (ErrorPeticion ''timeout''))) = None
   \<and> filter externo (fst (principal (entorno_ejemplo
          (Contenido (estado_json [oferta_ejemplo ''Chef'' ''h1''])) (ErrorPeticion ''timeout'')))) = []
   \<and> last (fst (principal (entorno_ejemplo
          (Contenido (estado_json [oferta_ejemplo ''Chef'' ''h1''])) (ErrorPeticion ''timeout'')))) =
       Imprimir aviso
   \<and> snd (obtener_ofertas (entorno_ejemplo
          (Contenido (estado_json [oferta_ejemplo ''Chef'' ''h1''])) (ErrorPeticion ''timeout''))) = []"
  using ejecutar_sin_ofertas [of "entorno_ejemplo
          (Contenido (estado_json [oferta_ejemplo ''Chef'' ''h1''])) (ErrorPeticion ''timeout'')" "''timeout''"]
  by (simp add: entorno_ejemplo_def)

text \<open>
  The state files that a run handles: none, an unreadable one, and one that a run wrote.
  With these the run ends without an exception.
\<close>

lemma principal_estado_bien_formado:
  assumes "archivo_inicial env = Ausente \<or> archivo_inicial env = Ilegible m \<or>
    archivo_inicial env = Contenido (estado_json anteriores)"
  shows "snd (principal env) = None"
proof -
  from assms obtain ps where "snd (cargar_estado (archivo_inicial env)) = estado_json ps"
    by (auto simp: estado_json_def)
  then show ?thesis
    by (simp add: principal_def ejecutar_def detectar_estado_json generar_resumen_def)
      (simp add: estado_json_def)
qed

text \<open>
  C4 fails on the code: a state file that parses, but not to a list of dictionaries with
  the key \<open>hash\<close>, makes \<open>detectar_nuevas_ofertas\<close> raise, and nothing catches it. Here
  the page has one listing and the state file holds \<open>[{"titulo": "Chef"}]\<close>, then
  \<open>{"ofertas": []}\<close>, then \<open>null\<close>.
\<close>

theorem principal_estado_malformado:
  "snd (principal (entorno_ejemplo (Contenido (JArr [JObj [(''titulo'', JStr ''Chef'')]]))
          pagina_ejemplo)) = Some KeyError
   \<and> snd (principal (entorno_ejemplo (Contenido (JObj [(''ofertas'', JArr [])]))
          pagina_ejemplo)) = Some TypeError
   \<and> snd (principal (entorno_ejemplo (Contenido JNull) pagina_ejemplo)) = Some TypeError"
  by (simp add: principal_def ejecutar_def obtener_ofertas_def entorno_ejemplo_def
      pagina_ejemplo_def elemento_ejemplo_def elementos_ofertas_def procesar_elemento_def
      buscar_titulo_def detectar_nuevas_ofertas_def)

end
